theory Spec2Isabelle
  imports Complex_Main
begin

section \<open>The data of the API collaborator (package ocpapi)\<close>

text \<open>
  The collector (package \<^verbatim>\<open>collector\<close>, second part of \<^verbatim>\<open>main.go\<close>) reads values of
  the types of the external package \<^verbatim>\<open>ocpapi\<close>. Only the fields and methods the collector
  uses are modelled, with the types the collector's code forces on them:
  a field passed as \<^verbatim>\<open>*bool\<close> or \<^verbatim>\<open>*int\<close> and tested against \<^verbatim>\<open>nil\<close> is an option,
  a field whose address is taken (\<^verbatim>\<open>&reported.UILight\<close>) is a plain value.

  Go's \<^verbatim>\<open>int\<close> is modelled as \<open>int\<close>: the collector performs no integer arithmetic, it
  only converts integers to \<^verbatim>\<open>float64\<close>. A \<^verbatim>\<open>float64\<close> is modelled as an exact \<open>real\<close>;
  the rounding error of binary floating point, NaN and the infinities are not modelled.
  A \<^verbatim>\<open>time.Time\<close> is modelled as its instant, an \<open>int\<close>.
\<close>

type_synonym float64 = real
type_synonym time = int

datatype error = Error string

definition After :: "time \<Rightarrow> time \<Rightarrow> bool" where
  \<comment> \<open>\<^verbatim>\<open>t.After(u)\<close>: the instant t is strictly after u.\<close>
  "After t u = (u < t)"

record ApplianceID =
  PNC :: string  \<comment> \<open>the result of the method \<^verbatim>\<open>PNC()\<close>\<close>
  String :: string  \<comment> \<open>the result of the method \<^verbatim>\<open>String()\<close>\<close>

record ApplianceInfo =
  PNC :: string
  Brand :: string
  ProductArea :: string
  DeviceType :: string
  Model :: string
  Variant :: string

record PropertyMetadata =
  LastUpdated :: time

record Metadata =
  FilterLife1 :: PropertyMetadata
  FilterLife :: PropertyMetadata
  ECO2 :: PropertyMetadata
  CO2 :: PropertyMetadata

record Reported =
  Workmode :: string
  DoorOpen :: "bool option"
  UILight :: bool
  SafetyLock :: bool
  Ionizer :: "bool option"
  FilterLife1 :: "int option"
  FilterLife :: "int option"
  Metadata :: Metadata
  FilterType :: "int option"
  RSSI :: "int option"
  Fanspeed :: int
  Temp :: "int option"
  Humidity :: "int option"
  PM1 :: "int option"
  PM25 :: "int option"
  PM25Approximate :: "int option"
  PM10 :: "int option"
  TVOC :: "int option"
  ECO2 :: "int option"
  CO2 :: "int option"

record ApplianceData =
  ApplianceName :: string
  ModelName :: string

record Properties =
  Reported :: Reported

record Appliance =
  ApplianceID :: ApplianceID
  ConnectionState :: string
  ApplianceData :: ApplianceData
  Properties :: Properties

text \<open>
  The two calls the collector makes on the client. Their answers are parameters of a
  collection pass: the result of \<^verbatim>\<open>Appliances(ctx, true)\<close>, and the result of
  \<^verbatim>\<open>AppliancesInfo(ctx, ids...)\<close> as a function of the identifiers asked for.
\<close>

record Client =
  Appliances :: "error + Appliance list"
  AppliancesInfo :: "string list \<Rightarrow> error + ApplianceInfo list"

datatype api_call = CallAppliances bool | CallAppliancesInfo "string list"


section \<open>The collector\<close>

datatype Desc =
    airPurifierConnected
  | airPurifierWorkmode
  | airPurifierDoorOpen
  | airPurifierUILight
  | airPurifierSafetyLock
  | airPurifierIonizer
  | airPurifierFilterLife
  | airPurifierFilterType
  | airPurifierRSSI
  | airPurifierFanspeed
  | airPurifierFanspeedMax
  | airPurifierFanspeedRaw
  | airPurifierTemperature
  | airPurifierHumidity
  | airPurifierPM1
  | airPurifierPM25
  | airPurifierPM10
  | airPurifierCO2
  | airPurifierTVOC
  | airPurifierVOCDensity

text \<open>A constant gauge metric, as \<^verbatim>\<open>prometheus.MustNewConstMetric\<close> builds it.\<close>

record Metric =
  desc :: Desc
  val :: float64
  labelValues :: "string list"

record Options =
  MolecularWeight :: float64

record Collector =
  options :: Options
  applianceInfos :: "string \<rightharpoonup> ApplianceInfo"

definition NewCollector :: "Options option \<Rightarrow> Collector" where
  "NewCollector opts =
     (let opts1 = (case opts of None \<Rightarrow> \<lparr>MolecularWeight = 0\<rparr> | Some o1 \<Rightarrow> o1);
          opts2 = (if MolecularWeight opts1 = 0 then opts1\<lparr>MolecularWeight := 30.026\<rparr> else opts1)
      in \<lparr>options = opts2, applianceInfos = Map.empty\<rparr>)"

subsection \<open>The conversion functions\<close>

definition workmode :: "string \<Rightarrow> float64" where
  "workmode s =
     (if s = ''PowerOff'' then 0
      else if s = ''Manual'' then 1
      else if s = ''Auto'' then 2
      else if s = ''Quiet'' then 3
      else - 1)"

definition fanspeed :: "string \<Rightarrow> int \<Rightarrow> float64 \<times> float64 \<times> bool" where
  "fanspeed model speed =
     (case (if model = ''PUREA9'' \<or> model = ''AX9'' then Some 9
            else if model = ''WELLA5'' \<or> model = ''AX5'' \<or> model = ''WELLA7'' \<or> model = ''AX7''
              then Some 5
            else if model = ''FLOWA3'' \<or> model = ''AX3'' then Some 3
            else if model = ''Muju'' \<or> model = ''PURE500'' then Some 3
            else None) of
        None \<Rightarrow> (0, 0, False)
      | Some max' \<Rightarrow> (real_of_int speed / max', max', True))"

definition tvocPPBToVocDensity :: "int \<Rightarrow> int \<Rightarrow> float64 \<Rightarrow> float64" where
  "tvocPPBToVocDensity ppb temperature molecularWeight =
     (101.325 * molecularWeight * real_of_int ppb)
       / (8.31446261815324 * (273.15 + real_of_int temperature))"

definition math_Round :: "float64 \<Rightarrow> float64" where
  \<comment> \<open>\<^verbatim>\<open>math.Round\<close>: the nearest integer, halves away from zero.\<close>
  "math_Round x =
     (if x < 0 then - real_of_int \<lfloor>- x + 1 / 2\<rfloor> else real_of_int \<lfloor>x + 1 / 2\<rfloor>)"

definition round' :: "float64 \<Rightarrow> int \<Rightarrow> float64" where
  \<comment> \<open>\<^verbatim>\<open>math.Pow(10, float64(decimals))\<close> is the integer power of ten.\<close>
  "round' f decimals = (let shift = 10 powi decimals in math_Round (f * shift) / shift)"

definition boolToFloat64 :: "bool \<Rightarrow> float64" where
  "boolToFloat64 b = (if b then 1 else 0)"

subsection \<open>One appliance of a collection pass\<close>

text \<open>
  The body of the loop over the appliances sends metrics on the channel \<^verbatim>\<open>ch\<close>. Each
  statement of the body is modelled by the list of the metrics it sends, and the body by
  their concatenation, in the order of the statements.
\<close>

definition collectMetric :: "string list \<Rightarrow> Desc \<Rightarrow> float64 \<Rightarrow> Metric list" where
  "collectMetric labels d v = [\<lparr>desc = d, val = v, labelValues = labels\<rparr>]"

definition maybeCollectIntMetric :: "string list \<Rightarrow> Desc \<Rightarrow> int option \<Rightarrow> Metric list" where
  "maybeCollectIntMetric labels d v =
     (case v of None \<Rightarrow> [] | Some i \<Rightarrow> collectMetric labels d (real_of_int i))"

definition maybeCollectBoolMetric :: "string list \<Rightarrow> Desc \<Rightarrow> bool option \<Rightarrow> Metric list" where
  "maybeCollectBoolMetric labels d v =
     (case v of None \<Rightarrow> [] | Some b \<Rightarrow> collectMetric labels d (boolToFloat64 b))"

definition filterLife :: "Reported \<Rightarrow> int option" where
  \<comment> \<open>The variable \<^verbatim>\<open>filterLife\<close> after the first switch of the body.\<close>
  "filterLife reported =
     (if FilterLife1 reported \<noteq> None \<and> FilterLife reported \<noteq> None then
        (if After (LastUpdated (Metadata.FilterLife1 (Metadata reported)))
                  (LastUpdated (Metadata.FilterLife (Metadata reported)))
         then FilterLife1 reported
         else FilterLife reported)
      else if FilterLife1 reported \<noteq> None then FilterLife1 reported
      else if FilterLife reported \<noteq> None then FilterLife reported
      else None)"

definition co2 :: "Reported \<Rightarrow> int option" where
  \<comment> \<open>The variable \<^verbatim>\<open>co2\<close> after the last switch of the body.\<close>
  "co2 reported =
     (if CO2 reported \<noteq> None \<and> ECO2 reported \<noteq> None then
        (if After (LastUpdated (Metadata.ECO2 (Metadata reported)))
                  (LastUpdated (Metadata.CO2 (Metadata reported)))
         then ECO2 reported
         else CO2 reported)
      else if ECO2 reported \<noteq> None then ECO2 reported
      else if CO2 reported \<noteq> None then CO2 reported
      else None)"

definition lookupInfo :: "(string \<rightharpoonup> ApplianceInfo) \<Rightarrow> string \<Rightarrow> ApplianceInfo" where
  \<comment> \<open>Reading a Go map at a missing key gives the zero value.\<close>
  "lookupInfo infos k =
     (case infos k of
        None \<Rightarrow> \<lparr>PNC = [], Brand = [], ProductArea = [], DeviceType = [], Model = [], Variant = []\<rparr>
      | Some info \<Rightarrow> info)"

definition applianceLabels :: "ApplianceInfo \<Rightarrow> Appliance \<Rightarrow> string list" where
  "applianceLabels info appliance =
     [ApplianceInfo.PNC info, Brand info, ProductArea info, DeviceType info, Model info,
      Variant info,
      String (ApplianceID appliance),
      ApplianceName (ApplianceData appliance),
      ModelName (ApplianceData appliance)]"

definition collectAppliance ::
  "Options \<Rightarrow> (string \<rightharpoonup> ApplianceInfo) \<Rightarrow> Appliance \<Rightarrow> Metric list" where
  "collectAppliance opts infos appliance =
     (let info = lookupInfo infos (ApplianceID.PNC (ApplianceID appliance));
          reported = Reported (Properties appliance)
      in if DeviceType info \<noteq> ''AIR_PURIFIER'' then []
         else
           let labels = applianceLabels info appliance
           in collectMetric labels airPurifierConnected
                (boolToFloat64 (ConnectionState appliance = ''Connected''))
            @ collectMetric labels airPurifierWorkmode (workmode (Workmode reported))
            @ maybeCollectBoolMetric labels airPurifierDoorOpen (DoorOpen reported)
            @ maybeCollectBoolMetric labels airPurifierUILight (Some (UILight reported))
            @ maybeCollectBoolMetric labels airPurifierSafetyLock (Some (SafetyLock reported))
            @ maybeCollectBoolMetric labels airPurifierIonizer (Ionizer reported)
            @ (case filterLife reported of
                 None \<Rightarrow> []
               | Some fl \<Rightarrow> collectMetric labels airPurifierFilterLife (real_of_int fl / 100))
            @ maybeCollectIntMetric labels airPurifierFilterType (FilterType reported)
            @ maybeCollectIntMetric labels airPurifierRSSI (RSSI reported)
            @ (case fanspeed (ModelName (ApplianceData appliance)) (Fanspeed reported) of
                 (fs, fanspeedMax, ok) \<Rightarrow>
                   if ok then collectMetric labels airPurifierFanspeed (round' fs 2)
                            @ collectMetric labels airPurifierFanspeedMax fanspeedMax
                   else [])
            @ collectMetric labels airPurifierFanspeedRaw (real_of_int (Fanspeed reported))
            @ (case Temp reported of
                 None \<Rightarrow> []
               | Some t \<Rightarrow> collectMetric labels airPurifierTemperature (real_of_int t))
            @ (case Humidity reported of
                 None \<Rightarrow> []
               | Some h \<Rightarrow> collectMetric labels airPurifierHumidity (real_of_int h / 100))
            @ (case PM1 reported of
                 None \<Rightarrow> []
               | Some p \<Rightarrow> collectMetric labels airPurifierPM1 (real_of_int p))
            @ (case PM25 reported of
                 Some p \<Rightarrow> collectMetric labels airPurifierPM25 (real_of_int p)
               | None \<Rightarrow>
                   (case PM25Approximate reported of
                      Some p \<Rightarrow> collectMetric labels airPurifierPM25 (real_of_int p)
                    | None \<Rightarrow> []))
            @ maybeCollectIntMetric labels airPurifierPM10 (PM10 reported)
            @ (case TVOC reported of
                 None \<Rightarrow> []
               | Some ppb \<Rightarrow>
                   collectMetric labels airPurifierTVOC (real_of_int ppb)
                   @ (let temperature = (case Temp reported of None \<Rightarrow> 25 | Some t \<Rightarrow> t);
                          vocDensity = tvocPPBToVocDensity ppb temperature (MolecularWeight opts)
                      in collectMetric labels airPurifierVOCDensity (round' vocDensity 2)))
            @ maybeCollectIntMetric labels airPurifierCO2 (co2 reported))"

subsection \<open>The collection pass\<close>

fun missingIDs :: "(string \<rightharpoonup> ApplianceInfo) \<Rightarrow> Appliance list \<Rightarrow> string list" where
  \<comment> \<open>The first loop of \<^verbatim>\<open>Collect\<close>: the slice \<^verbatim>\<open>applianceIDs\<close>.\<close>
  "missingIDs infos [] = []"
| "missingIDs infos (appliance # rest) =
     (if infos (ApplianceID.PNC (ApplianceID appliance)) = None
      then String (ApplianceID appliance) # missingIDs infos rest
      else missingIDs infos rest)"

fun storeInfos :: "(string \<rightharpoonup> ApplianceInfo) \<Rightarrow> ApplianceInfo list \<Rightarrow> (string \<rightharpoonup> ApplianceInfo)" where
  \<comment> \<open>The second loop: \<^verbatim>\<open>c.applianceInfos[info.PNC] = info\<close>.\<close>
  "storeInfos infos [] = infos"
| "storeInfos infos (info # rest) = storeInfos (infos(ApplianceInfo.PNC info \<mapsto> info)) rest"

fun collectAppliances ::
  "Options \<Rightarrow> (string \<rightharpoonup> ApplianceInfo) \<Rightarrow> Appliance list \<Rightarrow> Metric list \<Rightarrow> Metric list" where
  \<comment> \<open>The third loop; the last argument is what the channel has received so far.\<close>
  "collectAppliances opts infos [] ch = ch"
| "collectAppliances opts infos (appliance # rest) ch =
     collectAppliances opts infos rest (ch @ collectAppliance opts infos appliance)"

text \<open>
  What a pass leaves behind: the collector after it, the metrics sent on the channel, and
  the calls made on the client, in order. \<^verbatim>\<open>Collect\<close> has no result and no error value
  in the source; an aborted pass is a plain \<^verbatim>\<open>return\<close>. The mutex \<^verbatim>\<open>mu\<close>, the context
  and the log lines are left out: the model is of one pass run alone.
\<close>

record Pass =
  collector :: Collector
  sent :: "Metric list"
  calls :: "api_call list"

definition Collect' :: "Client \<Rightarrow> Collector \<Rightarrow> Pass" where
  "Collect' client c =
     (case Appliances client of
        Inl err \<Rightarrow> \<lparr>collector = c, sent = [], calls = [CallAppliances True]\<rparr>
      | Inr appliances \<Rightarrow>
          let applianceIDs = missingIDs (applianceInfos c) appliances
          in if length applianceIDs > 0 then
               (case AppliancesInfo client applianceIDs of
                  Inl err \<Rightarrow>
                    \<lparr>collector = c, sent = [],
                     calls = [CallAppliances True, CallAppliancesInfo applianceIDs]\<rparr>
                | Inr applianceInfo \<Rightarrow>
                    let c1 = c\<lparr>applianceInfos := storeInfos (applianceInfos c) applianceInfo\<rparr>
                    in \<lparr>collector = c1,
                        sent = collectAppliances (options c1) (applianceInfos c1) appliances [],
                        calls = [CallAppliances True, CallAppliancesInfo applianceIDs]\<rparr>)
             else
               \<lparr>collector = c,
                sent = collectAppliances (options c) (applianceInfos c) appliances [],
                calls = [CallAppliances True]\<rparr>)"

definition samplesOf :: "Desc \<Rightarrow> Metric list \<Rightarrow> float64 list" where
  \<comment> \<open>The values sent for one descriptor, in order.\<close>
  "samplesOf d ms = map val (filter (\<lambda>m. desc m = d) ms)"

definition supported :: "(string \<rightharpoonup> ApplianceInfo) \<Rightarrow> Appliance \<Rightarrow> bool" where
  \<comment> \<open>The test that guards the body: the cached device type is \<^verbatim>\<open>AIR_PURIFIER\<close>.\<close>
  "supported infos appliance =
     (DeviceType (lookupInfo infos (ApplianceID.PNC (ApplianceID appliance))) = ''AIR_PURIFIER'')"

text \<open>
  The label names every descriptor is built with (the package variable \<^verbatim>\<open>labels\<close>, which
  the variable of the same name in the loop body shadows). \<^verbatim>\<open>MustNewConstMetric\<close> panics
  when the number of label values differs from the number of label names; the body always
  passes as many values as there are names, so that the panic is no branch of the model.
\<close>

definition labels :: "string list" where
  "labels =
     [''pnc'', ''brand'', ''product_area'', ''device_type'', ''model'', ''variant'',
      ''appliance_id'', ''name'', ''model_name'']"

subsection \<open>Shorthands for the statements\<close>

abbreviation reportedOf :: "Appliance \<Rightarrow> Reported" where
  \<comment> \<open>\<^verbatim>\<open>appliance.Properties.Reported\<close>\<close>
  "reportedOf appliance \<equiv> Reported (Properties appliance)"

abbreviation updatedAt :: "(Metadata \<Rightarrow> PropertyMetadata) \<Rightarrow> Appliance \<Rightarrow> time" where
  \<comment> \<open>\<^verbatim>\<open>reported.Metadata.F.LastUpdated\<close>\<close>
  "updatedAt field appliance \<equiv> LastUpdated (field (Metadata (reportedOf appliance)))"

abbreviation pncOf :: "Appliance \<Rightarrow> string" where
  \<comment> \<open>\<^verbatim>\<open>appliance.ApplianceID.PNC()\<close>\<close>
  "pncOf appliance \<equiv> ApplianceID.PNC (ApplianceID appliance)"


definition fanspeedMaxTable :: "(string \<times> float64) list" where
  \<comment> \<open>The cases of the switch of \<^verbatim>\<open>fanspeed\<close>, read as a table from model name to maximum.\<close>
  "fanspeedMaxTable =
     [(''PUREA9'', 9), (''AX9'', 9),
      (''WELLA5'', 5), (''AX5'', 5), (''WELLA7'', 5), (''AX7'', 5),
      (''FLOWA3'', 3), (''AX3'', 3),
      (''Muju'', 3), (''PURE500'', 3)]"

definition isInfoCall :: "api_call \<Rightarrow> bool" where
  "isInfoCall call = (case call of CallAppliancesInfo ids \<Rightarrow> True | CallAppliances b \<Rightarrow> False)"

subsection \<open>Example inputs\<close>

definition exampleInfo :: ApplianceInfo where
  "exampleInfo =
     \<lparr>PNC = ''950011538'', Brand = ''Electrolux'', ProductArea = ''WELLBEING'',
      DeviceType = ''AIR_PURIFIER'', Model = ''PUREA9'', Variant = ''CADR400''\<rparr>"

definition otherInfo :: ApplianceInfo where
  "otherInfo =
     \<lparr>PNC = ''914900545'', Brand = ''Electrolux'', ProductArea = ''TASTE'',
      DeviceType = ''OVEN'', Model = ''OV'', Variant = ''X''\<rparr>"

definition metadataAt :: "time \<Rightarrow> time \<Rightarrow> time \<Rightarrow> time \<Rightarrow> Metadata" where
  "metadataAt t1 t e c =
     \<lparr>Metadata.FilterLife1 = \<lparr>LastUpdated = t1\<rparr>, Metadata.FilterLife = \<lparr>LastUpdated = t\<rparr>,
      Metadata.ECO2 = \<lparr>LastUpdated = e\<rparr>, Metadata.CO2 = \<lparr>LastUpdated = c\<rparr>\<rparr>"

definition exampleReported :: Reported where
  \<comment> \<open>A reported state in which no optional field is present.\<close>
  "exampleReported =
     \<lparr>Workmode = ''Auto'', DoorOpen = None, UILight = False, SafetyLock = False,
      Ionizer = None, FilterLife1 = None, FilterLife = None, Metadata = metadataAt 0 0 0 0,
      FilterType = None, RSSI = None, Fanspeed = 3, Temp = None, Humidity = None,
      PM1 = None, PM25 = None, PM25Approximate = None, PM10 = None, TVOC = None,
      ECO2 = None, CO2 = None\<rparr>"

definition applianceWith :: "Reported \<Rightarrow> Appliance" where
  "applianceWith r =
     \<lparr>ApplianceID = \<lparr>ApplianceID.PNC = ''950011538'', String = ''950011538_00:31862190-443E07363DAB''\<rparr>,
      ConnectionState = ''Connected'',
      ApplianceData = \<lparr>ApplianceName = ''Bedroom'', ModelName = ''PUREA9''\<rparr>,
      Properties = \<lparr>Reported = r\<rparr>\<rparr>"

definition exampleAppliance :: Appliance where
  "exampleAppliance = applianceWith exampleReported"

definition otherAppliance :: Appliance where
  \<comment> \<open>An appliance of another device type that reports sensor fields all the same.\<close>
  "otherAppliance =
     \<lparr>ApplianceID = \<lparr>ApplianceID.PNC = ''914900545'', String = ''914900545_00:10000001-0123456789AB''\<rparr>,
      ConnectionState = ''Connected'',
      ApplianceData = \<lparr>ApplianceName = ''Kitchen'', ModelName = ''OV''\<rparr>,
      Properties = \<lparr>Reported = exampleReported\<lparr>DoorOpen := Some True, Temp := Some 21,
                                                TVOC := Some 100, CO2 := Some 400\<rparr>\<rparr>\<rparr>"

definition exampleInfos :: "string \<rightharpoonup> ApplianceInfo" where
  "exampleInfos = [''950011538'' \<mapsto> exampleInfo, ''914900545'' \<mapsto> otherInfo]"

definition exampleClient :: Client where
  "exampleClient =
     \<lparr>Appliances = Inr [exampleAppliance, otherAppliance],
      AppliancesInfo = (\<lambda>ids. Inr [exampleInfo, otherInfo])\<rparr>"

definition failingListClient :: Client where
  "failingListClient =
     \<lparr>Appliances = Inl (Error ''timeout''), AppliancesInfo = (\<lambda>ids. Inr [])\<rparr>"

definition failingInfoClient :: Client where
  "failingInfoClient =
     \<lparr>Appliances = Inr [exampleAppliance, otherAppliance],
      AppliancesInfo = (\<lambda>ids. Inl (Error ''timeout''))\<rparr>"

definition emptyInfoClient :: Client where
  "emptyInfoClient =
     \<lparr>Appliances = Inr [exampleAppliance, otherAppliance],
      AppliancesInfo = (\<lambda>ids. Inr [])\<rparr>"

definition exampleOptions :: Options where
  "exampleOptions = \<lparr>MolecularWeight = 30.026\<rparr>"

definition exampleIDs :: "string list" where
  "exampleIDs = [''950011538_00:31862190-443E07363DAB'', ''914900545_00:10000001-0123456789AB'']"


section \<open>Auxiliary facts\<close>

lemma samplesOf_Nil [simp]: "samplesOf d [] = []"
  by (simp add: samplesOf_def)

lemma samplesOf_append [simp]: "samplesOf d (xs @ ys) = samplesOf d xs @ samplesOf d ys"
  by (simp add: samplesOf_def)

lemma samplesOf_collectMetric [simp]:
  "samplesOf d (collectMetric ls d' v) = (if d' = d then [v] else [])"
  by (simp add: samplesOf_def collectMetric_def)

lemma samplesOf_maybeCollectIntMetric [simp]:
  "samplesOf d (maybeCollectIntMetric ls d' v) =
     (if d' = d then (case v of None \<Rightarrow> [] | Some i \<Rightarrow> [real_of_int i]) else [])"
  by (simp add: maybeCollectIntMetric_def split: option.split)

lemma samplesOf_maybeCollectBoolMetric [simp]:
  "samplesOf d (maybeCollectBoolMetric ls d' v) =
     (if d' = d then (case v of None \<Rightarrow> [] | Some b \<Rightarrow> [boolToFloat64 b]) else [])"
  by (simp add: maybeCollectBoolMetric_def split: option.split)

lemma samplesOf_case_option [simp]:
  "samplesOf d (case x of None \<Rightarrow> xs | Some y \<Rightarrow> f y) =
     (case x of None \<Rightarrow> samplesOf d xs | Some y \<Rightarrow> samplesOf d (f y))"
  by (simp split: option.split)

lemma samplesOf_if [simp]:
  "samplesOf d (if b then xs else ys) = (if b then samplesOf d xs else samplesOf d ys)"
  by simp

text \<open>\<^verbatim>\<open>math.Round\<close> gives an integer at distance at most one half.\<close>

lemma math_Round_near: "\<bar>math_Round y - y\<bar> \<le> 1 / 2"
proof (cases "y < 0")
  case True
  define k where "k = \<lfloor>- y + 1 / 2\<rfloor>"
  have "real_of_int k \<le> - y + 1 / 2" and "- y + 1 / 2 < real_of_int k + 1"
    unfolding k_def by linarith+
  moreover have "math_Round y = - real_of_int k"
    using True by (simp only: math_Round_def k_def if_True)
  ultimately show ?thesis by linarith
next
  case False
  define k where "k = \<lfloor>y + 1 / 2\<rfloor>"
  have "real_of_int k \<le> y + 1 / 2" and "y + 1 / 2 < real_of_int k + 1"
    unfolding k_def by linarith+
  moreover have "math_Round y = real_of_int k"
    using False by (simp only: math_Round_def k_def if_False)
  ultimately show ?thesis by linarith
qed

lemma math_Round_int: "\<exists>k. math_Round y = real_of_int k"
  unfolding math_Round_def by (metis of_int_minus)

lemma round'_2: "round' x 2 = math_Round (x * 100) / 100"
  by (simp add: round'_def)

text \<open>
  Rounding to two decimals: the result is a whole number of hundredths, at most half a
  hundredth away from the argument.
\<close>

lemma round'_2_nearest:
  "(\<exists>k. round' x 2 = real_of_int k / 100) \<and> \<bar>round' x 2 - x\<bar> \<le> 1 / 200"
proof
  obtain k where k: "math_Round (x * 100) = real_of_int k"
    using math_Round_int by blast
  then show "\<exists>k. round' x 2 = real_of_int k / 100"
    by (auto simp: round'_2)
  have "\<bar>math_Round (x * 100) - x * 100\<bar> \<le> 1 / 2"
    by (rule math_Round_near)
  then show "\<bar>round' x 2 - x\<bar> \<le> 1 / 200"
    by (simp add: round'_2 field_simps)
qed

lemma applianceLabels_length: "length (applianceLabels info a) = length labels"
  by (simp add: applianceLabels_def labels_def)

lemma collectAppliances_concat:
  "collectAppliances opts infos apps ch = ch @ concat (map (collectAppliance opts infos) apps)"
  by (induction apps arbitrary: ch) simp_all

lemma missingIDs_filter:
  "missingIDs infos apps =
     map (\<lambda>a. String (ApplianceID a))
       (filter (\<lambda>a. ApplianceID.PNC (ApplianceID a) \<notin> dom infos) apps)"
  by (induction apps) (auto simp: domIff)

lemma dom_storeInfos:
  "dom (storeInfos infos is) = dom infos \<union> ApplianceInfo.PNC ` set is"
  by (induction "is" arbitrary: infos) auto

lemma collectAppliance_unsupported:
  "\<not> supported infos a \<Longrightarrow> collectAppliance opts infos a = []"
  by (simp add: collectAppliance_def supported_def Let_def)

lemma sent_Collect':
  assumes "Appliances client = Inr apps"
  shows "sent (Collect' client c) = [] \<or>
         sent (Collect' client c) =
           concat (map (collectAppliance (options c)
                          (applianceInfos (collector (Collect' client c)))) apps)"
  using assms
  by (simp add: Collect'_def Let_def collectAppliances_concat split: sum.split)

lemma collector_Collect':
  "collector (Collect' client c) =
     (case Appliances client of
        Inl err \<Rightarrow> c
      | Inr appliances \<Rightarrow>
          if missingIDs (applianceInfos c) appliances = [] then c
          else (case AppliancesInfo client (missingIDs (applianceInfos c) appliances) of
                  Inl err \<Rightarrow> c
                | Inr applianceInfo \<Rightarrow>
                    c\<lparr>applianceInfos := storeInfos (applianceInfos c) applianceInfo\<rparr>))"
  by (simp add: Collect'_def Let_def split: sum.split)

lemma calls_Collect':
  "calls (Collect' client c) =
     (case Appliances client of
        Inl err \<Rightarrow> [CallAppliances True]
      | Inr appliances \<Rightarrow>
          if missingIDs (applianceInfos c) appliances = [] then [CallAppliances True]
          else [CallAppliances True,
                CallAppliancesInfo (missingIDs (applianceInfos c) appliances)])"
  by (simp add: Collect'_def Let_def split: sum.split)

lemma ex_collector:
  "collector (Collect' exampleClient (NewCollector None)) =
     \<lparr>options = \<lparr>MolecularWeight = 30.026\<rparr>, applianceInfos = exampleInfos\<rparr>"
  apply (simp add: collector_Collect' exampleClient_def NewCollector_def exampleAppliance_def
      applianceWith_def otherAppliance_def exampleInfos_def)
  apply (rule ext)
  apply (simp add: exampleInfo_def otherInfo_def)
  done

lemma collectAppliance_supported:
  assumes "supported infos a"
  shows "collectAppliance opts infos a =
           (let info = lookupInfo infos (ApplianceID.PNC (ApplianceID a));
                reported = reportedOf a;
                labels = applianceLabels info a
            in collectMetric labels airPurifierConnected
                (boolToFloat64 (ConnectionState a = ''Connected''))
            @ collectMetric labels airPurifierWorkmode (workmode (Workmode reported))
            @ maybeCollectBoolMetric labels airPurifierDoorOpen (DoorOpen reported)
            @ maybeCollectBoolMetric labels airPurifierUILight (Some (UILight reported))
            @ maybeCollectBoolMetric labels airPurifierSafetyLock (Some (SafetyLock reported))
            @ maybeCollectBoolMetric labels airPurifierIonizer (Ionizer reported)
            @ (case filterLife reported of
                 None \<Rightarrow> []
               | Some fl \<Rightarrow> collectMetric labels airPurifierFilterLife (real_of_int fl / 100))
            @ maybeCollectIntMetric labels airPurifierFilterType (FilterType reported)
            @ maybeCollectIntMetric labels airPurifierRSSI (RSSI reported)
            @ (case fanspeed (ModelName (ApplianceData a)) (Fanspeed reported) of
                 (fs, fanspeedMax, ok) \<Rightarrow>
                   if ok then collectMetric labels airPurifierFanspeed (round' fs 2)
                            @ collectMetric labels airPurifierFanspeedMax fanspeedMax
                   else [])
            @ collectMetric labels airPurifierFanspeedRaw (real_of_int (Fanspeed reported))
            @ (case Temp reported of
                 None \<Rightarrow> []
               | Some t \<Rightarrow> collectMetric labels airPurifierTemperature (real_of_int t))
            @ (case Humidity reported of
                 None \<Rightarrow> []
               | Some h \<Rightarrow> collectMetric labels airPurifierHumidity (real_of_int h / 100))
            @ (case PM1 reported of
                 None \<Rightarrow> []
               | Some p \<Rightarrow> collectMetric labels airPurifierPM1 (real_of_int p))
            @ (case PM25 reported of
                 Some p \<Rightarrow> collectMetric labels airPurifierPM25 (real_of_int p)
               | None \<Rightarrow>
                   (case PM25Approximate reported of
                      Some p \<Rightarrow> collectMetric labels airPurifierPM25 (real_of_int p)
                    | None \<Rightarrow> []))
            @ maybeCollectIntMetric labels airPurifierPM10 (PM10 reported)
            @ (case TVOC reported of
                 None \<Rightarrow> []
               | Some ppb \<Rightarrow>
                   collectMetric labels airPurifierTVOC (real_of_int ppb)
                   @ (let temperature = (case Temp reported of None \<Rightarrow> 25 | Some t \<Rightarrow> t);
                          vocDensity = tvocPPBToVocDensity ppb temperature (MolecularWeight opts)
                      in collectMetric labels airPurifierVOCDensity (round' vocDensity 2)))
            @ maybeCollectIntMetric labels airPurifierCO2 (co2 reported))"
  using assms by (simp add: collectAppliance_def supported_def Let_def)

lemma samples_DoorOpen:
  "supported infos a \<Longrightarrow>
   samplesOf airPurifierDoorOpen (collectAppliance opts infos a) =
     (case DoorOpen (reportedOf a) of None \<Rightarrow> [] | Some b \<Rightarrow> [boolToFloat64 b])"
  by (simp add: collectAppliance_supported Let_def split: prod.split option.split)

lemma samples_Ionizer:
  "supported infos a \<Longrightarrow>
   samplesOf airPurifierIonizer (collectAppliance opts infos a) =
     (case Ionizer (reportedOf a) of None \<Rightarrow> [] | Some b \<Rightarrow> [boolToFloat64 b])"
  by (simp add: collectAppliance_supported Let_def split: prod.split option.split)

lemma samples_UILight:
  "supported infos a \<Longrightarrow>
   samplesOf airPurifierUILight (collectAppliance opts infos a) =
     [boolToFloat64 (UILight (reportedOf a))]"
  by (simp add: collectAppliance_supported Let_def split: prod.split option.split)

lemma samples_SafetyLock:
  "supported infos a \<Longrightarrow>
   samplesOf airPurifierSafetyLock (collectAppliance opts infos a) =
     [boolToFloat64 (SafetyLock (reportedOf a))]"
  by (simp add: collectAppliance_supported Let_def split: prod.split option.split)

lemma samples_FilterLife:
  "supported infos a \<Longrightarrow>
   samplesOf airPurifierFilterLife (collectAppliance opts infos a) =
     (case filterLife (reportedOf a) of None \<Rightarrow> [] | Some fl \<Rightarrow> [real_of_int fl / 100])"
  by (simp add: collectAppliance_supported Let_def split: prod.split option.split)

lemma samples_CO2:
  "supported infos a \<Longrightarrow>
   samplesOf airPurifierCO2 (collectAppliance opts infos a) =
     (case co2 (reportedOf a) of None \<Rightarrow> [] | Some v \<Rightarrow> [real_of_int v])"
  by (simp add: collectAppliance_supported Let_def split: prod.split option.split)

lemma samples_Fanspeed:
  "supported infos a \<Longrightarrow>
   samplesOf airPurifierFanspeed (collectAppliance opts infos a) =
     (case fanspeed (ModelName (ApplianceData a)) (Fanspeed (reportedOf a)) of
        (fs, fanspeedMax, ok) \<Rightarrow> if ok then [round' fs 2] else [])"
  by (simp add: collectAppliance_supported Let_def split: prod.split option.split)

lemma samples_FanspeedMax:
  "supported infos a \<Longrightarrow>
   samplesOf airPurifierFanspeedMax (collectAppliance opts infos a) =
     (case fanspeed (ModelName (ApplianceData a)) (Fanspeed (reportedOf a)) of
        (fs, fanspeedMax, ok) \<Rightarrow> if ok then [fanspeedMax] else [])"
  by (simp add: collectAppliance_supported Let_def split: prod.split option.split)



lemma missingIDs_Nil_iff:
  "missingIDs infos apps = [] \<longleftrightarrow> (\<forall>a \<in> set apps. pncOf a \<in> dom infos)"
  by (induction apps) (auto simp: domIff)

lemma supported_applianceWith: "supported exampleInfos (applianceWith r)"
  by (simp add: supported_def lookupInfo_def exampleInfos_def exampleInfo_def applianceWith_def)




lemma missingIDs_example:
  "missingIDs (applianceInfos (NewCollector None)) [exampleAppliance, otherAppliance] = exampleIDs"
  by (simp add: NewCollector_def exampleAppliance_def applianceWith_def otherAppliance_def
      exampleIDs_def)

lemma failing_collector:
  "collector (Collect' failingInfoClient (NewCollector None)) = NewCollector None"
  by (simp add: collector_Collect' failingInfoClient_def split: sum.split)

lemma empty_collector:
  "collector (Collect' emptyInfoClient (NewCollector None)) = NewCollector None"
  by (simp add: collector_Collect' emptyInfoClient_def NewCollector_def)


section \<open>The claims\<close>

text \<open>
  C1, as amended. For an appliance of the supported device type, the two optional
  booleans of the reported state, door open and ionizer, send one sample, 1 when true and
  0 when false, and send nothing when absent. UI light and safety lock are plain booleans
  in the reported state (the collector takes their address, which is never \<^verbatim>\<open>nil\<close>):
  each always sends exactly one sample, 1 when true and 0 when false.
\<close>

theorem bool_fields_samples:
  assumes "supported infos a"
  shows "samplesOf airPurifierDoorOpen (collectAppliance opts infos a) =
           (case DoorOpen (reportedOf a) of None \<Rightarrow> [] | Some b \<Rightarrow> [if b then 1 else 0]) \<and>
         samplesOf airPurifierIonizer (collectAppliance opts infos a) =
           (case Ionizer (reportedOf a) of None \<Rightarrow> [] | Some b \<Rightarrow> [if b then 1 else 0]) \<and>
         samplesOf airPurifierUILight (collectAppliance opts infos a) =
           [if UILight (reportedOf a) then 1 else 0] \<and>
         samplesOf airPurifierSafetyLock (collectAppliance opts infos a) =
           [if SafetyLock (reportedOf a) then 1 else 0]"
  using assms
  by (simp add: samples_DoorOpen samples_Ionizer samples_UILight samples_SafetyLock
      boolToFloat64_def split: option.split)

theorem bool_fields_samples_witness:
  "samplesOf airPurifierDoorOpen (collectAppliance exampleOptions exampleInfos
     (applianceWith (exampleReported\<lparr>DoorOpen := Some True, Ionizer := Some False,
                                       UILight := True\<rparr>))) = [1] \<and>
   samplesOf airPurifierIonizer (collectAppliance exampleOptions exampleInfos
     (applianceWith (exampleReported\<lparr>DoorOpen := Some True, Ionizer := Some False,
                                       UILight := True\<rparr>))) = [0] \<and>
   samplesOf airPurifierUILight (collectAppliance exampleOptions exampleInfos
     (applianceWith (exampleReported\<lparr>DoorOpen := Some True, Ionizer := Some False,
                                       UILight := True\<rparr>))) = [1] \<and>
   samplesOf airPurifierSafetyLock (collectAppliance exampleOptions exampleInfos
     (applianceWith (exampleReported\<lparr>DoorOpen := Some True, Ionizer := Some False,
                                       UILight := True\<rparr>))) = [0] \<and>
   samplesOf airPurifierDoorOpen (collectAppliance exampleOptions exampleInfos
     (applianceWith exampleReported)) = [] \<and>
   samplesOf airPurifierIonizer (collectAppliance exampleOptions exampleInfos
     (applianceWith exampleReported)) = []"
  using bool_fields_samples[OF supported_applianceWith, of exampleOptions
             "exampleReported\<lparr>DoorOpen := Some True, Ionizer := Some False, UILight := True\<rparr>"]
        bool_fields_samples[OF supported_applianceWith, of exampleOptions exampleReported]
  by (simp add: applianceWith_def exampleReported_def)

text \<open>
  C1, counterexample. The claim as stated counts UI light and safety lock among the optional fields that send
  nothing when absent. For the appliance whose reported state holds no optional field at
  all, a sample is sent for both all the same, with value 0.
\<close>

theorem bool_fields_samples_counterexample:
  "DoorOpen (reportedOf exampleAppliance) = None \<and>
   Ionizer (reportedOf exampleAppliance) = None \<and>
   supported exampleInfos exampleAppliance \<and>
   samplesOf airPurifierUILight
     (collectAppliance exampleOptions exampleInfos exampleAppliance) = [0] \<and>
   samplesOf airPurifierSafetyLock
     (collectAppliance exampleOptions exampleInfos exampleAppliance) = [0]"
  by (simp add: exampleAppliance_def supported_applianceWith samples_UILight samples_SafetyLock
      boolToFloat64_def)
     (simp add: applianceWith_def exampleReported_def)

text \<open>
  C2. In a pass whose appliance list was fetched, an appliance of the list whose cached
  device type is not \<^verbatim>\<open>AIR_PURIFIER\<close> sends no metric, whatever its reported state holds:
  the body of the loop sends nothing for it, and every metric the pass sends was sent by
  the body for another appliance of the list, one of the supported device type.
\<close>

theorem unsupported_device_type_sends_nothing:
  assumes "Appliances client = Inr apps"
      and "a \<in> set apps"
      and "\<not> supported (applianceInfos (collector (Collect' client c))) a"
  shows "collectAppliance (options c) (applianceInfos (collector (Collect' client c))) a = [] \<and>
         (\<forall>m \<in> set (sent (Collect' client c)).
            \<exists>b \<in> set apps. b \<noteq> a \<and>
              supported (applianceInfos (collector (Collect' client c))) b \<and>
              m \<in> set (collectAppliance (options c)
                         (applianceInfos (collector (Collect' client c))) b))"
proof
  let ?infos = "applianceInfos (collector (Collect' client c))"
  show "collectAppliance (options c) ?infos a = []"
    using assms(3) by (rule collectAppliance_unsupported)
  show "\<forall>m \<in> set (sent (Collect' client c)).
          \<exists>b \<in> set apps. b \<noteq> a \<and> supported ?infos b \<and>
            m \<in> set (collectAppliance (options c) ?infos b)"
  proof
    fix m
    assume m: "m \<in> set (sent (Collect' client c))"
    then have "sent (Collect' client c) \<noteq> []"
      by auto
    with sent_Collect'[OF assms(1), of c]
    have "sent (Collect' client c) = concat (map (collectAppliance (options c) ?infos) apps)"
      by simp
    with m obtain b where b: "b \<in> set apps" "m \<in> set (collectAppliance (options c) ?infos b)"
      by auto
    have sb: "supported ?infos b"
    proof (rule ccontr)
      assume "\<not> supported ?infos b"
      then have "collectAppliance (options c) ?infos b = []"
        by (rule collectAppliance_unsupported)
      with b(2) show False by simp
    qed
    then have "b \<noteq> a"
      using assms(3) by auto
    with b sb show "\<exists>b \<in> set apps. b \<noteq> a \<and> supported ?infos b \<and>
                      m \<in> set (collectAppliance (options c) ?infos b)"
      by blast
  qed
qed

theorem unsupported_device_type_sends_nothing_witness:
  "Appliances exampleClient = Inr [exampleAppliance, otherAppliance] \<and>
   otherAppliance \<in> set [exampleAppliance, otherAppliance] \<and>
   \<not> supported (applianceInfos (collector (Collect' exampleClient (NewCollector None))))
       otherAppliance \<and>
   collectAppliance (options (NewCollector None))
     (applianceInfos (collector (Collect' exampleClient (NewCollector None)))) otherAppliance = [] \<and>
   set (sent (Collect' exampleClient (NewCollector None)))
     \<subseteq> set (collectAppliance (options (NewCollector None))
              (applianceInfos (collector (Collect' exampleClient (NewCollector None))))
              exampleAppliance)"
proof -
  have h1: "Appliances exampleClient = Inr [exampleAppliance, otherAppliance]"
    by (simp add: exampleClient_def)
  have h2: "otherAppliance \<in> set [exampleAppliance, otherAppliance]"
    by simp
  have h3: "\<not> supported (applianceInfos (collector (Collect' exampleClient (NewCollector None))))
                otherAppliance"
    by (simp add: ex_collector supported_def lookupInfo_def exampleInfos_def otherAppliance_def
        otherInfo_def)
  from unsupported_device_type_sends_nothing[OF h1 h2 h3] h1 h2 h3
  show ?thesis by auto
qed

text \<open>
  C3. For an appliance of the supported device type, the filter life sample is chosen
  among the readings \<^verbatim>\<open>FilterLife1\<close> and \<^verbatim>\<open>FilterLife\<close>: with both present, the one whose
  last update is later; with one present, that one; with none, no sample is sent. The
  chosen integer is sent divided by 100.
\<close>

theorem filter_life_resolution:
  assumes "supported infos a"
  shows "(FilterLife1 (reportedOf a) = Some v1 \<and> FilterLife (reportedOf a) = Some v \<and>
            updatedAt Metadata.FilterLife a < updatedAt Metadata.FilterLife1 a \<longrightarrow>
            samplesOf airPurifierFilterLife (collectAppliance opts infos a) = [real_of_int v1 / 100]) \<and>
         (FilterLife1 (reportedOf a) = Some v1 \<and> FilterLife (reportedOf a) = Some v \<and>
            updatedAt Metadata.FilterLife1 a < updatedAt Metadata.FilterLife a \<longrightarrow>
            samplesOf airPurifierFilterLife (collectAppliance opts infos a) = [real_of_int v / 100]) \<and>
         (FilterLife1 (reportedOf a) = Some v1 \<and> FilterLife (reportedOf a) = None \<longrightarrow>
            samplesOf airPurifierFilterLife (collectAppliance opts infos a) = [real_of_int v1 / 100]) \<and>
         (FilterLife1 (reportedOf a) = None \<and> FilterLife (reportedOf a) = Some v \<longrightarrow>
            samplesOf airPurifierFilterLife (collectAppliance opts infos a) = [real_of_int v / 100]) \<and>
         (FilterLife1 (reportedOf a) = None \<and> FilterLife (reportedOf a) = None \<longrightarrow>
            samplesOf airPurifierFilterLife (collectAppliance opts infos a) = [])"
  using assms by (simp add: samples_FilterLife filterLife_def After_def)

theorem filter_life_resolution_witness:
  "samplesOf airPurifierFilterLife (collectAppliance exampleOptions exampleInfos
     (applianceWith (exampleReported\<lparr>FilterLife1 := Some 60, FilterLife := Some 80,
                                       Metadata := metadataAt 20 10 0 0\<rparr>))) = [0.60] \<and>
   samplesOf airPurifierFilterLife (collectAppliance exampleOptions exampleInfos
     (applianceWith (exampleReported\<lparr>FilterLife1 := Some 80, FilterLife := Some 60,
                                       Metadata := metadataAt 10 20 0 0\<rparr>))) = [0.60] \<and>
   samplesOf airPurifierFilterLife (collectAppliance exampleOptions exampleInfos
     (applianceWith (exampleReported\<lparr>FilterLife1 := Some 45\<rparr>))) = [0.45] \<and>
   samplesOf airPurifierFilterLife (collectAppliance exampleOptions exampleInfos
     (applianceWith (exampleReported\<lparr>FilterLife := Some 70\<rparr>))) = [0.70] \<and>
   samplesOf airPurifierFilterLife (collectAppliance exampleOptions exampleInfos
     (applianceWith exampleReported)) = []"
  using filter_life_resolution[OF supported_applianceWith, of
             "exampleReported\<lparr>FilterLife1 := Some 60, FilterLife := Some 80,
                                Metadata := metadataAt 20 10 0 0\<rparr>" 60 80 exampleOptions]
        filter_life_resolution[OF supported_applianceWith, of
             "exampleReported\<lparr>FilterLife1 := Some 80, FilterLife := Some 60,
                                Metadata := metadataAt 10 20 0 0\<rparr>" 80 60 exampleOptions]
        filter_life_resolution[OF supported_applianceWith, of "exampleReported\<lparr>FilterLife1 := Some 45\<rparr>" 45 0
             exampleOptions]
        filter_life_resolution[OF supported_applianceWith, of "exampleReported\<lparr>FilterLife := Some 70\<rparr>" 0 70
             exampleOptions]
        filter_life_resolution[OF supported_applianceWith, of exampleReported 0 0 exampleOptions]
  by (simp add: applianceWith_def exampleReported_def metadataAt_def)



text \<open>
  C5. For an appliance of the supported device type: when the model name is in the table
  of maxima, with maximum \<open>m\<close>, \<^verbatim>\<open>fanspeed\<close> gives the ratio of the raw speed to \<open>m\<close>, the
  fan speed sample is that ratio rounded to two decimals, and \<open>m\<close> is sent as the sample of
  the maximum; when the model name is not in the table, \<^verbatim>\<open>fanspeed\<close> reports failure and
  neither sample is sent.
\<close>

theorem fanspeed_normalization:
  assumes "supported infos a"
  shows "(map_of fanspeedMaxTable (ModelName (ApplianceData a)) = Some m \<longrightarrow>
            fanspeed (ModelName (ApplianceData a)) (Fanspeed (reportedOf a)) =
              (real_of_int (Fanspeed (reportedOf a)) / m, m, True) \<and>
            samplesOf airPurifierFanspeed (collectAppliance opts infos a) =
              [round' (real_of_int (Fanspeed (reportedOf a)) / m) 2] \<and>
            (\<exists>k. round' (real_of_int (Fanspeed (reportedOf a)) / m) 2 = real_of_int k / 100) \<and>
            \<bar>round' (real_of_int (Fanspeed (reportedOf a)) / m) 2
               - real_of_int (Fanspeed (reportedOf a)) / m\<bar> \<le> 1 / 200 \<and>
            samplesOf airPurifierFanspeedMax (collectAppliance opts infos a) = [m]) \<and>
         (map_of fanspeedMaxTable (ModelName (ApplianceData a)) = None \<longrightarrow>
            fanspeed (ModelName (ApplianceData a)) (Fanspeed (reportedOf a)) = (0, 0, False) \<and>
            samplesOf airPurifierFanspeed (collectAppliance opts infos a) = [] \<and>
            samplesOf airPurifierFanspeedMax (collectAppliance opts infos a) = [])"
proof -
  have known: "fanspeed model speed = (real_of_int speed / m, m, True)"
    if "map_of fanspeedMaxTable model = Some m" for model speed
    using that by (auto simp: fanspeed_def fanspeedMaxTable_def split: if_splits)
  have unknown: "fanspeed model speed = (0, 0, False)"
    if "map_of fanspeedMaxTable model = None" for model speed
    using that by (auto simp: fanspeed_def fanspeedMaxTable_def split: if_splits)
  show ?thesis
    using assms round'_2_nearest[of "real_of_int (Fanspeed (reportedOf a)) / m"]
    by (auto simp: samples_Fanspeed samples_FanspeedMax known unknown)
qed

theorem fanspeed_normalization_witness:
  "map_of fanspeedMaxTable ''PUREA9'' = Some 9 \<and>
   samplesOf airPurifierFanspeed (collectAppliance exampleOptions exampleInfos
     (applianceWith exampleReported)) = [0.33] \<and>
   samplesOf airPurifierFanspeedMax (collectAppliance exampleOptions exampleInfos
     (applianceWith exampleReported)) = [9] \<and>
   map_of fanspeedMaxTable ''PURE5000'' = None \<and>
   samplesOf airPurifierFanspeed (collectAppliance exampleOptions exampleInfos
     ((applianceWith exampleReported)
        \<lparr>ApplianceData := \<lparr>ApplianceName = ''Hall'', ModelName = ''PURE5000''\<rparr>\<rparr>)) = [] \<and>
   samplesOf airPurifierFanspeedMax (collectAppliance exampleOptions exampleInfos
     ((applianceWith exampleReported)
        \<lparr>ApplianceData := \<lparr>ApplianceName = ''Hall'', ModelName = ''PURE5000''\<rparr>\<rparr>)) = []"
proof -
  have s: "supported exampleInfos ((applianceWith exampleReported)
             \<lparr>ApplianceData := \<lparr>ApplianceName = ''Hall'', ModelName = ''PURE5000''\<rparr>\<rparr>)"
    using supported_applianceWith[of exampleReported] by (simp add: supported_def)
  have r: "round' (3 / 9) 2 = 0.33"
    by (simp add: round'_def math_Round_def)
  show ?thesis
    using fanspeed_normalization[OF supported_applianceWith, of exampleReported 9 exampleOptions]
          fanspeed_normalization[OF s, of 0 exampleOptions] r
    by (simp add: applianceWith_def exampleReported_def fanspeedMaxTable_def)
qed

text \<open>
  C6. If the fetch of the appliance list returns an error, or a batch fetch of appliance
  info that the pass makes returns an error, the pass sends no metric and leaves the
  collector, and so the cache of appliance info, as it was. The pass is a total function
  with no error result: nothing propagates.
\<close>

theorem failed_fetch_aborts_pass:
  assumes "Appliances client = Inl e \<or>
           (\<exists>ids. CallAppliancesInfo ids \<in> set (calls (Collect' client c)) \<and>
                  AppliancesInfo client ids = Inl e)"
  shows "sent (Collect' client c) = [] \<and> collector (Collect' client c) = c"
  using assms
  by (auto simp: Collect'_def Let_def split: sum.splits if_splits)

theorem failed_fetch_aborts_pass_witness:
  "Appliances failingListClient = Inl (Error ''timeout'') \<and>
   sent (Collect' failingListClient (NewCollector None)) = [] \<and>
   collector (Collect' failingListClient (NewCollector None)) = NewCollector None \<and>
   CallAppliancesInfo [''950011538_00:31862190-443E07363DAB'', ''914900545_00:10000001-0123456789AB'']
     \<in> set (calls (Collect' failingInfoClient (NewCollector None))) \<and>
   AppliancesInfo failingInfoClient
     [''950011538_00:31862190-443E07363DAB'', ''914900545_00:10000001-0123456789AB'']
     = Inl (Error ''timeout'') \<and>
   sent (Collect' failingInfoClient (NewCollector None)) = [] \<and>
   collector (Collect' failingInfoClient (NewCollector None)) = NewCollector None"
proof -
  have h1: "Appliances failingListClient = Inl (Error ''timeout'')"
    by (simp add: failingListClient_def)
  have h2: "CallAppliancesInfo
              [''950011538_00:31862190-443E07363DAB'', ''914900545_00:10000001-0123456789AB'']
              \<in> set (calls (Collect' failingInfoClient (NewCollector None)))"
    by (simp add: calls_Collect' failingInfoClient_def NewCollector_def exampleAppliance_def
        applianceWith_def otherAppliance_def)
  have h3: "AppliancesInfo failingInfoClient
              [''950011538_00:31862190-443E07363DAB'', ''914900545_00:10000001-0123456789AB'']
              = Inl (Error ''timeout'')"
    by (simp add: failingInfoClient_def)
  from failed_fetch_aborts_pass[of failingListClient "Error ''timeout''" "NewCollector None"] h1
  have a: "sent (Collect' failingListClient (NewCollector None)) = [] \<and>
           collector (Collect' failingListClient (NewCollector None)) = NewCollector None"
    by blast
  from failed_fetch_aborts_pass[of failingInfoClient "Error ''timeout''" "NewCollector None"] h2 h3
  have b: "sent (Collect' failingInfoClient (NewCollector None)) = [] \<and>
           collector (Collect' failingInfoClient (NewCollector None)) = NewCollector None"
    by blast
  from a b h1 h2 h3 show ?thesis by blast
qed

text \<open>
  C7, as amended. In a pass whose appliance list was fetched, the batch fetch of appliance
  info is asked for the identifiers of exactly the listed appliances whose PNC is not in
  the cache, and is not called when there is none. When a second pass follows over the
  same list, and the batch fetch of the first pass, if it made one, succeeded and
  answered with an info for the PNC of every listed appliance not yet cached, the second
  pass makes no batch fetch and leaves the cache as it was: at most one batch fetch in
  the two passes.
\<close>

theorem info_fetch_for_uncached_only:
  assumes "Appliances client = Inr apps"
  shows "calls (Collect' client c) =
           CallAppliances True #
             (if \<forall>a \<in> set apps. pncOf a \<in> dom (applianceInfos c) then []
              else [CallAppliancesInfo
                      (map (\<lambda>a. String (ApplianceID a))
                         (filter (\<lambda>a. pncOf a \<notin> dom (applianceInfos c)) apps))]) \<and>
         (Appliances client2 = Inr apps \<and>
          (\<forall>ids. CallAppliancesInfo ids \<in> set (calls (Collect' client c)) \<longrightarrow>
             (\<exists>infos. AppliancesInfo client ids = Inr infos \<and>
                (\<forall>a \<in> set apps. pncOf a \<in> dom (applianceInfos c) \<union> ApplianceInfo.PNC ` set infos)))
          \<longrightarrow>
            calls (Collect' client2 (collector (Collect' client c))) = [CallAppliances True] \<and>
            collector (Collect' client2 (collector (Collect' client c))) = collector (Collect' client c) \<and>
            length (filter isInfoCall
                     (calls (Collect' client c) @
                      calls (Collect' client2 (collector (Collect' client c))))) \<le> 1)"
proof
  show "calls (Collect' client c) =
           CallAppliances True #
             (if \<forall>a \<in> set apps. pncOf a \<in> dom (applianceInfos c) then []
              else [CallAppliancesInfo
                      (map (\<lambda>a. String (ApplianceID a))
                         (filter (\<lambda>a. pncOf a \<notin> dom (applianceInfos c)) apps))])"
    using assms
    by (simp add: calls_Collect' missingIDs_Nil_iff) (simp add: missingIDs_filter)
  show "Appliances client2 = Inr apps \<and>
          (\<forall>ids. CallAppliancesInfo ids \<in> set (calls (Collect' client c)) \<longrightarrow>
             (\<exists>infos. AppliancesInfo client ids = Inr infos \<and>
                (\<forall>a \<in> set apps. pncOf a \<in> dom (applianceInfos c) \<union> ApplianceInfo.PNC ` set infos)))
          \<longrightarrow>
            calls (Collect' client2 (collector (Collect' client c))) = [CallAppliances True] \<and>
            collector (Collect' client2 (collector (Collect' client c))) = collector (Collect' client c) \<and>
            length (filter isInfoCall
                     (calls (Collect' client c) @
                      calls (Collect' client2 (collector (Collect' client c))))) \<le> 1"
  proof
    assume h: "Appliances client2 = Inr apps \<and>
          (\<forall>ids. CallAppliancesInfo ids \<in> set (calls (Collect' client c)) \<longrightarrow>
             (\<exists>infos. AppliancesInfo client ids = Inr infos \<and>
                (\<forall>a \<in> set apps. pncOf a \<in> dom (applianceInfos c) \<union> ApplianceInfo.PNC ` set infos)))"
    have cached: "\<forall>a \<in> set apps. pncOf a \<in> dom (applianceInfos (collector (Collect' client c)))"
    proof (cases "missingIDs (applianceInfos c) apps = []")
      case True
      then show ?thesis
        using assms by (simp add: collector_Collect' missingIDs_Nil_iff)
    next
      case False
      then have "CallAppliancesInfo (missingIDs (applianceInfos c) apps)
                   \<in> set (calls (Collect' client c))"
        using assms by (simp add: calls_Collect')
      with h obtain infos where
        infos: "AppliancesInfo client (missingIDs (applianceInfos c) apps) = Inr infos"
          "\<forall>a \<in> set apps. pncOf a \<in> dom (applianceInfos c) \<union> ApplianceInfo.PNC ` set infos"
        by blast
      then show ?thesis
        using assms False by (simp add: collector_Collect' dom_storeInfos)
    qed
    then have none: "missingIDs (applianceInfos (collector (Collect' client c))) apps = []"
      by (simp add: missingIDs_Nil_iff)
    have second: "calls (Collect' client2 (collector (Collect' client c))) = [CallAppliances True]"
      using h none by (simp add: calls_Collect')
    have same: "collector (Collect' client2 (collector (Collect' client c))) = collector (Collect' client c)"
      using h none by (simp add: collector_Collect')
    have "length (filter isInfoCall (calls (Collect' client c))) \<le> 1"
      using assms by (simp add: calls_Collect' isInfoCall_def)
    then have "length (filter isInfoCall
                     (calls (Collect' client c) @
                      calls (Collect' client2 (collector (Collect' client c))))) \<le> 1"
      by (simp add: second isInfoCall_def)
    with second same show "calls (Collect' client2 (collector (Collect' client c))) = [CallAppliances True] \<and>
            collector (Collect' client2 (collector (Collect' client c))) = collector (Collect' client c) \<and>
            length (filter isInfoCall
                     (calls (Collect' client c) @
                      calls (Collect' client2 (collector (Collect' client c))))) \<le> 1"
      by blast
  qed
qed

theorem info_fetch_for_uncached_only_witness:
  "calls (Collect' exampleClient (NewCollector None))
     = [CallAppliances True, CallAppliancesInfo exampleIDs] \<and>
   calls (Collect' exampleClient (collector (Collect' exampleClient (NewCollector None))))
     = [CallAppliances True] \<and>
   collector (Collect' exampleClient (collector (Collect' exampleClient (NewCollector None))))
     = collector (Collect' exampleClient (NewCollector None)) \<and>
   length (filter isInfoCall
     (calls (Collect' exampleClient (NewCollector None)) @
      calls (Collect' exampleClient (collector (Collect' exampleClient (NewCollector None))))))
     \<le> 1"
proof -
  have h1: "Appliances exampleClient = Inr [exampleAppliance, otherAppliance]"
    by (simp add: exampleClient_def)
  have h2: "\<forall>ids. CallAppliancesInfo ids \<in> set (calls (Collect' exampleClient (NewCollector None))) \<longrightarrow>
             (\<exists>infos. AppliancesInfo exampleClient ids = Inr infos \<and>
                (\<forall>a \<in> set [exampleAppliance, otherAppliance].
                   pncOf a \<in> dom (applianceInfos (NewCollector None)) \<union> ApplianceInfo.PNC ` set infos))"
    by (simp add: exampleClient_def exampleAppliance_def applianceWith_def otherAppliance_def
        exampleInfo_def otherInfo_def)
  have uncached: "\<not> (\<forall>a \<in> set [exampleAppliance, otherAppliance].
                       pncOf a \<in> dom (applianceInfos (NewCollector None)))"
    by (auto simp: NewCollector_def)
  have ids: "map (\<lambda>a. String (ApplianceID a))
               (filter (\<lambda>a. pncOf a \<notin> dom (applianceInfos (NewCollector None)))
                  [exampleAppliance, otherAppliance]) = exampleIDs"
    by (simp add: NewCollector_def exampleAppliance_def applianceWith_def otherAppliance_def
        exampleIDs_def)
  note both = info_fetch_for_uncached_only[OF h1, of "NewCollector None" exampleClient]
  from both[THEN conjunct1]
  have first: "calls (Collect' exampleClient (NewCollector None))
                 = [CallAppliances True, CallAppliancesInfo exampleIDs]"
    by (simp only: uncached ids if_False)
  from both[THEN conjunct2, THEN mp, OF conjI, OF h1 h2] first
  show ?thesis
    by blast
qed

text \<open>
  C7, counterexample. Without that proviso the second pass fetches again: when the batch fetch of the first
  pass fails, and when it succeeds with an empty answer, both passes over the same list
  make the same batch fetch.
\<close>

theorem info_fetch_for_uncached_only_counterexample:
  "calls (Collect' failingInfoClient (NewCollector None))
     = [CallAppliances True, CallAppliancesInfo exampleIDs] \<and>
   calls (Collect' failingInfoClient (collector (Collect' failingInfoClient (NewCollector None))))
     = [CallAppliances True, CallAppliancesInfo exampleIDs] \<and>
   calls (Collect' emptyInfoClient (NewCollector None))
     = [CallAppliances True, CallAppliancesInfo exampleIDs] \<and>
   calls (Collect' emptyInfoClient (collector (Collect' emptyInfoClient (NewCollector None))))
     = [CallAppliances True, CallAppliancesInfo exampleIDs]"
  unfolding failing_collector empty_collector
  by (simp add: calls_Collect' failingInfoClient_def emptyInfoClient_def NewCollector_def
      exampleAppliance_def applianceWith_def otherAppliance_def exampleIDs_def)

text \<open>
  C8. For an appliance of the supported device type, the CO2 sample is chosen among the
  readings \<^verbatim>\<open>ECO2\<close> and \<^verbatim>\<open>CO2\<close> by the same rule, and depends on no filter life field:
  with both present, the one whose last update is later; with one present, that one; with
  none, no sample is sent.
\<close>

theorem co2_resolution:
  assumes "supported infos a"
  shows "(ECO2 (reportedOf a) = Some e \<and> CO2 (reportedOf a) = Some v \<and>
            updatedAt Metadata.CO2 a < updatedAt Metadata.ECO2 a \<longrightarrow>
            samplesOf airPurifierCO2 (collectAppliance opts infos a) = [real_of_int e]) \<and>
         (ECO2 (reportedOf a) = Some e \<and> CO2 (reportedOf a) = Some v \<and>
            updatedAt Metadata.ECO2 a < updatedAt Metadata.CO2 a \<longrightarrow>
            samplesOf airPurifierCO2 (collectAppliance opts infos a) = [real_of_int v]) \<and>
         (ECO2 (reportedOf a) = Some e \<and> CO2 (reportedOf a) = None \<longrightarrow>
            samplesOf airPurifierCO2 (collectAppliance opts infos a) = [real_of_int e]) \<and>
         (ECO2 (reportedOf a) = None \<and> CO2 (reportedOf a) = Some v \<longrightarrow>
            samplesOf airPurifierCO2 (collectAppliance opts infos a) = [real_of_int v]) \<and>
         (ECO2 (reportedOf a) = None \<and> CO2 (reportedOf a) = None \<longrightarrow>
            samplesOf airPurifierCO2 (collectAppliance opts infos a) = [])"
  using assms by (simp add: samples_CO2 co2_def After_def)

theorem co2_resolution_witness:
  "samplesOf airPurifierCO2 (collectAppliance exampleOptions exampleInfos
     (applianceWith (exampleReported\<lparr>ECO2 := Some 450, CO2 := Some 400,
                                       Metadata := metadataAt 0 0 20 10\<rparr>))) = [450] \<and>
   samplesOf airPurifierCO2 (collectAppliance exampleOptions exampleInfos
     (applianceWith (exampleReported\<lparr>ECO2 := Some 450, CO2 := Some 400,
                                       Metadata := metadataAt 0 0 10 20\<rparr>))) = [400] \<and>
   samplesOf airPurifierCO2 (collectAppliance exampleOptions exampleInfos
     (applianceWith (exampleReported\<lparr>ECO2 := Some 450\<rparr>))) = [450] \<and>
   samplesOf airPurifierCO2 (collectAppliance exampleOptions exampleInfos
     (applianceWith (exampleReported\<lparr>CO2 := Some 400\<rparr>))) = [400] \<and>
   samplesOf airPurifierCO2 (collectAppliance exampleOptions exampleInfos
     (applianceWith exampleReported)) = []"
  using co2_resolution[OF supported_applianceWith, of
             "exampleReported\<lparr>ECO2 := Some 450, CO2 := Some 400,
                                Metadata := metadataAt 0 0 20 10\<rparr>" 450 400 exampleOptions]
        co2_resolution[OF supported_applianceWith, of
             "exampleReported\<lparr>ECO2 := Some 450, CO2 := Some 400,
                                Metadata := metadataAt 0 0 10 20\<rparr>" 450 400 exampleOptions]
        co2_resolution[OF supported_applianceWith, of "exampleReported\<lparr>ECO2 := Some 450\<rparr>" 450 0
             exampleOptions]
        co2_resolution[OF supported_applianceWith, of "exampleReported\<lparr>CO2 := Some 400\<rparr>" 0 400
             exampleOptions]
        co2_resolution[OF supported_applianceWith, of exampleReported 0 0 exampleOptions]
  by (simp add: applianceWith_def exampleReported_def metadataAt_def)

text \<open>
  C10. For an appliance of the supported device type, when both readings of a pair are
  present and were last updated at the same instant, the primary reading is chosen:
  \<^verbatim>\<open>FilterLife\<close> rather than \<^verbatim>\<open>FilterLife1\<close>, and \<^verbatim>\<open>CO2\<close> rather than \<^verbatim>\<open>ECO2\<close>.
\<close>

theorem equal_timestamps_choose_primary:
  assumes "supported infos a"
  shows "(FilterLife1 (reportedOf a) = Some v1 \<and> FilterLife (reportedOf a) = Some v \<and>
            updatedAt Metadata.FilterLife1 a = updatedAt Metadata.FilterLife a \<longrightarrow>
            filterLife (reportedOf a) = FilterLife (reportedOf a) \<and>
            samplesOf airPurifierFilterLife (collectAppliance opts infos a) = [real_of_int v / 100]) \<and>
         (ECO2 (reportedOf a) = Some e \<and> CO2 (reportedOf a) = Some w \<and>
            updatedAt Metadata.ECO2 a = updatedAt Metadata.CO2 a \<longrightarrow>
            co2 (reportedOf a) = CO2 (reportedOf a) \<and>
            samplesOf airPurifierCO2 (collectAppliance opts infos a) = [real_of_int w])"
  using assms by (simp add: samples_CO2 samples_FilterLife filterLife_def co2_def After_def)

theorem equal_timestamps_choose_primary_witness:
  "samplesOf airPurifierFilterLife (collectAppliance exampleOptions exampleInfos
     (applianceWith (exampleReported\<lparr>FilterLife1 := Some 60, FilterLife := Some 80,
                                       ECO2 := Some 450, CO2 := Some 400,
                                       Metadata := metadataAt 7 7 9 9\<rparr>))) = [0.80] \<and>
   samplesOf airPurifierCO2 (collectAppliance exampleOptions exampleInfos
     (applianceWith (exampleReported\<lparr>FilterLife1 := Some 60, FilterLife := Some 80,
                                       ECO2 := Some 450, CO2 := Some 400,
                                       Metadata := metadataAt 7 7 9 9\<rparr>))) = [400]"
  using equal_timestamps_choose_primary[OF supported_applianceWith, of
             "exampleReported\<lparr>FilterLife1 := Some 60, FilterLife := Some 80,
                                ECO2 := Some 450, CO2 := Some 400,
                                Metadata := metadataAt 7 7 9 9\<rparr>" 60 80 exampleOptions 450 400]
  by (simp add: applianceWith_def exampleReported_def metadataAt_def)

end
